theory Spec2Isabelle
  imports Main
begin

section \<open>Python values, JSON and exceptions\<close>

text \<open>
  The values a request body is parsed into by \<^verbatim>\<open>request.get_json()\<close>, and the values the
  handlers of \<^verbatim>\<open>api.py\<close> pass around: \<^verbatim>\<open>None\<close>, booleans, integers, strings, lists and
  dictionaries with string keys (listed as their items). \<open>PObject b\<close> stands for any other
  Python object (a set, a class instance) that \<^verbatim>\<open>json.dumps\<close> rejects; \<open>b\<close> is what
  \<^verbatim>\<open>bool()\<close> answers on it. Floating-point numbers are left out.
\<close>

datatype pyval =
    PNone
  | PBool bool
  | PInt int
  | PStr string
  | PList "pyval list"
  | PDict "(string \<times> pyval) list"
  | PObject bool

text \<open>Python's truth test, as \<^verbatim>\<open>if title:\<close> and \<^verbatim>\<open>if recipe:\<close> apply it.\<close>

fun truthy :: "pyval \<Rightarrow> bool" where
  "truthy PNone = False"
| "truthy (PBool b) = b"
| "truthy (PInt n) = (n \<noteq> 0)"
| "truthy (PStr s) = (s \<noteq> [])"
| "truthy (PList xs) = (xs \<noteq> [])"
| "truthy (PDict kvs) = (kvs \<noteq> [])"
| "truthy (PObject b) = b"

text \<open>
  What the code raises. \<open>HTTPException c\<close> is \<^verbatim>\<open>abort(c)\<close>; \<open>AuthError e c\<close> is the
  exception class imported from \<^verbatim>\<open>.auth.auth\<close>, with its two attributes \<^verbatim>\<open>error\<close> and
  \<^verbatim>\<open>status_code\<close> that \<^verbatim>\<open>auth_error\<close> reads.
\<close>

datatype exn =
    HTTPException nat
  | AuthError string nat
  | AttributeError
  | TypeError

text \<open>
  \<^verbatim>\<open>request_json.get(key, default)\<close>: only a dictionary has the method; on every other
  parsed value (\<^verbatim>\<open>None\<close>, a list, a number, a string) the call raises AttributeError.
\<close>

fun dict_get :: "pyval \<Rightarrow> string \<Rightarrow> pyval \<Rightarrow> exn + pyval" where
  "dict_get (PDict kvs) k dflt = Inr (case map_of kvs k of None \<Rightarrow> dflt | Some v \<Rightarrow> v)"
| "dict_get _ k dflt = Inl AttributeError"

text \<open>
  \<^verbatim>\<open>json.dumps\<close> succeeds on exactly the values built from \<^verbatim>\<open>None\<close>, booleans, numbers,
  strings, lists and string-keyed dictionaries, and raises TypeError on anything else.
\<close>

primrec serializable :: "pyval \<Rightarrow> bool" where
  "serializable PNone = True"
| "serializable (PBool b) = True"
| "serializable (PInt n) = True"
| "serializable (PStr s) = True"
| "serializable (PList xs) = list_all id (map serializable xs)"
| "serializable (PDict kvs) = list_all snd (map (map_prod id serializable) kvs)"
| "serializable (PObject b) = False"

text \<open>
  The text \<^verbatim>\<open>json.dumps\<close> produces is represented by the value it encodes: \<open>JText v\<close> is the
  JSON text of \<open>v\<close>, and \<^verbatim>\<open>json.loads\<close> of that text gives \<open>v\<close> back.
\<close>

datatype jtext = JText pyval

definition json_dumps :: "pyval \<Rightarrow> exn + jtext" where
  "json_dumps v = (if serializable v then Inr (JText v) else Inl TypeError)"

fun json_loads :: "jtext \<Rightarrow> pyval" where
  "json_loads (JText v) = v"

section \<open>Requests and responses\<close>

text \<open>
  A request carries its credentials and its body. \<^verbatim>\<open>request.get_json()\<close> either raises
  (the body is not JSON) or returns the parsed value.
\<close>

datatype payload = Unparseable | Parsed pyval

fun get_json :: "payload \<Rightarrow> exn + pyval" where
  "get_json Unparseable = Inl (HTTPException 400)"
| "get_json (Parsed v) = Inr v"

text \<open>
  A response is a status code and a body: the JSON that \<^verbatim>\<open>jsonify\<close> renders, or the HTML
  page the framework produces by itself for an error that has no registered handler.
\<close>

datatype content = Json pyval | DefaultPage nat

record response =
  status :: nat
  body :: content

definition jsonify :: "pyval \<Rightarrow> response" where
  "jsonify v = \<lparr>status = 200, body = Json v\<rparr>"

section \<open>The drinks table\<close>

text \<open>
  Modelled from the spec: the class \<^verbatim>\<open>Drink\<close> of \<^verbatim>\<open>database/models.py\<close> is not among the
  sources. A drink has an identifier (integer, unique, assigned by the store), a title and a
  recipe stored serialized as text. The title attribute holds whatever value the handler
  assigns. The identifier of an object that was never inserted is \<^verbatim>\<open>None\<close>. The table is
  the list of its rows.
\<close>

record drink =
  drink_id :: "int option"
  title :: pyval
  recipe :: jtext

type_synonym table = "drink list"

definition Drink :: "pyval \<Rightarrow> jtext \<Rightarrow> drink" where
  "Drink t r = \<lparr>drink_id = None, title = t, recipe = r\<rparr>"

text \<open>Modelled from the spec: \<^verbatim>\<open>Drink.query.get(id)\<close> and \<^verbatim>\<open>Drink.query.all()\<close>.\<close>

definition query_get :: "table \<Rightarrow> int \<Rightarrow> drink option" where
  "query_get tbl i = find (\<lambda>d. drink_id d = Some i) tbl"

definition query_all :: "table \<Rightarrow> drink list" where
  "query_all tbl = tbl"

text \<open>
  Modelled from the spec: the store assigns a new row an identifier no row has, one more than
  the largest one in use (and at least 1).
\<close>

fun row_ids :: "table \<Rightarrow> int list" where
  "row_ids [] = []"
| "row_ids (d # ds) = (case drink_id d of None \<Rightarrow> row_ids ds | Some i \<Rightarrow> i # row_ids ds)"

definition new_id :: "table \<Rightarrow> int" where
  "new_id tbl = foldr max (row_ids tbl) 0 + 1"

text \<open>
  Modelled from the spec: \<^verbatim>\<open>drink.insert()\<close> adds the object to the session as a new row,
  \<^verbatim>\<open>drink.delete()\<close> removes its row, and an assignment to an attribute of a stored object
  changes its row. Each returns the object and the session's table.
\<close>

definition insert_drink :: "drink \<Rightarrow> table \<Rightarrow> drink \<times> table" where
  "insert_drink d tbl = (let d' = d\<lparr>drink_id := Some (new_id tbl)\<rparr> in (d', tbl @ [d']))"

definition delete_drink :: "drink \<Rightarrow> table \<Rightarrow> table" where
  "delete_drink d tbl = filter (\<lambda>r. drink_id r \<noteq> drink_id d) tbl"

definition set_title :: "drink \<Rightarrow> pyval \<Rightarrow> table \<Rightarrow> drink \<times> table" where
  "set_title d v tbl =
     (d\<lparr>title := v\<rparr>, map (\<lambda>r. if drink_id r = drink_id d then r\<lparr>title := v\<rparr> else r) tbl)"

definition set_recipe :: "drink \<Rightarrow> jtext \<Rightarrow> table \<Rightarrow> drink \<times> table" where
  "set_recipe d v tbl =
     (d\<lparr>recipe := v\<rparr>, map (\<lambda>r. if drink_id r = drink_id d then r\<lparr>recipe := v\<rparr> else r) tbl)"

text \<open>Modelled from the spec: the long projection (identifier, title, full recipe).\<close>

definition long :: "drink \<Rightarrow> pyval" where
  "long d = PDict
     [(''id'', case drink_id d of None \<Rightarrow> PNone | Some i \<Rightarrow> PInt i),
      (''title'', title d),
      (''recipe'', json_loads (recipe d))]"

section \<open>The transaction wrapper\<close>

text \<open>
  A unit of work runs against the session's table: it returns a drink or raises, and leaves
  the session's table as its statements changed it.
\<close>

type_synonym unit_of_work = "table \<Rightarrow> (exn + drink) \<times> table"

datatype event = Executed | CommitFailed | Committed | RolledBack

record tx_result =
  outcome :: "exn + response"
  store :: table
  trace :: "event list"

text \<open>
  Modelled from the spec: the class \<^verbatim>\<open>Transaction\<close> of \<^verbatim>\<open>database/models.py\<close> is not among
  the sources. Following section 4.3, \<^verbatim>\<open>tx.success(success).run()\<close> executes the unit of
  work once; if it raises, nothing is committed and the same exception is raised again; if it
  returns a drink, the mutation is committed and the rendering function is applied to the
  drink; if the commit itself fails, the wrapper rolls back and raises a generic server error.
  Whether the store accepts the commit is not in the program's hands: it is the argument
  \<open>commit_ok\<close>. The trace records what the wrapper did, in order.
\<close>

definition run_transaction ::
  "bool \<Rightarrow> unit_of_work \<Rightarrow> (drink \<Rightarrow> response) \<Rightarrow> table \<Rightarrow> tx_result" where
  "run_transaction commit_ok tx success db =
     (case tx db of
        (Inl e, session) \<Rightarrow>
          \<lparr>outcome = Inl e, store = db, trace = [Executed, RolledBack]\<rparr>
      | (Inr d, session) \<Rightarrow>
          if commit_ok
          then \<lparr>outcome = Inr (success d), store = session, trace = [Executed, Committed]\<rparr>
          else \<lparr>outcome = Inl (HTTPException 500), store = db,
                trace = [Executed, CommitFailed, RolledBack]\<rparr>)"

definition handler_result :: "tx_result \<Rightarrow> (exn + response) \<times> table" where
  "handler_result r = (outcome r, store r)"

section \<open>The route handlers of api.py\<close>

text \<open>\<^verbatim>\<open>GET /drinks-detail\<close>: every drink in long projection.\<close>

definition get_drinks_detail :: "table \<Rightarrow> (exn + response) \<times> table" where
  "get_drinks_detail db =
     (Inr (jsonify (PDict [(''success'', PBool True),
                           (''drinks'', PList (map long (query_all db)))])), db)"

text \<open>
  \<^verbatim>\<open>POST /drinks\<close>. The \<^verbatim>\<open>try\<close> block reads the body and builds the drink; the bare
  \<^verbatim>\<open>except\<close> turns whatever it raises into \<^verbatim>\<open>abort(422)\<close>. The insert comes after it.
\<close>

definition post_drink_try :: "payload \<Rightarrow> exn + drink" where
  "post_drink_try p =
     (case get_json p of
        Inl e \<Rightarrow> Inl e
      | Inr request_json \<Rightarrow>
          (case dict_get request_json ''title'' (PStr []) of
             Inl e \<Rightarrow> Inl e
           | Inr t \<Rightarrow>
               (case dict_get request_json ''recipe'' (PList []) of
                  Inl e \<Rightarrow> Inl e
                | Inr r \<Rightarrow>
                    (case json_dumps r of
                       Inl e \<Rightarrow> Inl e
                     | Inr txt \<Rightarrow> Inr (Drink t txt)))))"

definition post_drink_tx :: "payload \<Rightarrow> unit_of_work" where
  "post_drink_tx p session =
     (case post_drink_try p of
        Inl e \<Rightarrow> (Inl (HTTPException 422), session)
      | Inr d \<Rightarrow> (case insert_drink d session of (d', session') \<Rightarrow> (Inr d', session')))"

definition render_drinks :: "drink \<Rightarrow> response" where
  "render_drinks d = jsonify (PDict [(''success'', PBool True), (''drinks'', PList [long d])])"

definition post_drink :: "bool \<Rightarrow> payload \<Rightarrow> table \<Rightarrow> (exn + response) \<times> table" where
  "post_drink commit_ok p db =
     handler_result (run_transaction commit_ok (post_drink_tx p) render_drinks db)"

text \<open>
  \<^verbatim>\<open>PATCH /drinks/<id>\<close>. The lookup and \<^verbatim>\<open>abort(404)\<close> come before the \<^verbatim>\<open>try\<close> block.
  Inside it the title is assigned before the recipe is read, so the block can raise after
  it has changed the session.
\<close>

definition update_drink_try :: "payload \<Rightarrow> drink \<Rightarrow> table \<Rightarrow> (exn + drink) \<times> table" where
  "update_drink_try p d session =
     (case get_json p of
        Inl e \<Rightarrow> (Inl e, session)
      | Inr request_json \<Rightarrow>
          (case dict_get request_json ''title'' (PStr []) of
             Inl e \<Rightarrow> (Inl e, session)
           | Inr t \<Rightarrow>
               (case (if truthy t then set_title d t session else (d, session)) of
                  (d1, session1) \<Rightarrow>
                    (case dict_get request_json ''recipe'' (PList []) of
                       Inl e \<Rightarrow> (Inl e, session1)
                     | Inr r \<Rightarrow>
                         if truthy r
                         then (case json_dumps r of
                                 Inl e \<Rightarrow> (Inl e, session1)
                               | Inr txt \<Rightarrow>
                                   (case set_recipe d1 txt session1 of
                                      (d2, session2) \<Rightarrow> (Inr d2, session2)))
                         else (Inr d1, session1)))))"

definition update_drink_tx :: "int \<Rightarrow> payload \<Rightarrow> unit_of_work" where
  "update_drink_tx i p session =
     (case query_get session i of
        None \<Rightarrow> (Inl (HTTPException 404), session)
      | Some d \<Rightarrow>
          (case update_drink_try p d session of
             (Inl e, session') \<Rightarrow> (Inl (HTTPException 422), session')
           | (Inr d', session') \<Rightarrow> (Inr d', session')))"

definition update_drink :: "bool \<Rightarrow> int \<Rightarrow> payload \<Rightarrow> table \<Rightarrow> (exn + response) \<times> table" where
  "update_drink commit_ok i p db =
     handler_result (run_transaction commit_ok (update_drink_tx i p) render_drinks db)"

text \<open>\<^verbatim>\<open>DELETE /drinks/<id>\<close>. The body of the request is not read.\<close>

definition delete_drinks_tx :: "int \<Rightarrow> unit_of_work" where
  "delete_drinks_tx i session =
     (case query_get session i of
        None \<Rightarrow> (Inl (HTTPException 404), session)
      | Some d \<Rightarrow> (Inr d, delete_drink d session))"

definition render_delete :: "drink \<Rightarrow> response" where
  "render_delete d =
     jsonify (PDict [(''success'', PBool True),
                     (''delete'', case drink_id d of None \<Rightarrow> PNone | Some i \<Rightarrow> PInt i)])"

definition delete_drinks :: "bool \<Rightarrow> int \<Rightarrow> table \<Rightarrow> (exn + response) \<times> table" where
  "delete_drinks commit_ok i db =
     handler_result (run_transaction commit_ok (delete_drinks_tx i) render_delete db)"

section \<open>Error handling\<close>

text \<open>The three registered error handlers; each returns \<^verbatim>\<open>jsonify(response), code\<close>.\<close>

definition unprocessable :: response where
  "unprocessable =
     \<lparr>status = 422,
      body = Json (PDict [(''success'', PBool False), (''error'', PInt 422),
                          (''message'', PStr ''unprocessable'')])\<rparr>"

definition resource_not_found :: response where
  "resource_not_found =
     \<lparr>status = 404,
      body = Json (PDict [(''success'', PBool False), (''error'', PInt 404),
                          (''message'', PStr ''resource not found'')])\<rparr>"

definition auth_error :: "string \<Rightarrow> nat \<Rightarrow> response" where
  "auth_error err status_code =
     \<lparr>status = status_code,
      body = Json (PDict [(''success'', PBool False), (''error'', PInt (int status_code)),
                          (''message'', PStr err)])\<rparr>"

text \<open>
  The framework's dispatch of a raised exception: to the handler registered for its status
  code or class when there is one; an HTTP error without one gets the framework's own page
  with its code, any other exception the page for status 500.
\<close>

fun handle_exception :: "exn \<Rightarrow> response" where
  "handle_exception (HTTPException c) =
     (if c = 422 then unprocessable
      else if c = 404 then resource_not_found
      else \<lparr>status = c, body = DefaultPage c\<rparr>)"
| "handle_exception (AuthError err status_code) = auth_error err status_code"
| "handle_exception AttributeError = \<lparr>status = 500, body = DefaultPage 500\<rparr>"
| "handle_exception TypeError = \<lparr>status = 500, body = DefaultPage 500\<rparr>"

fun respond :: "(exn + response) \<times> 's \<Rightarrow> response \<times> 's" where
  "respond (Inl e, s) = (handle_exception e, s)"
| "respond (Inr r, s) = (r, s)"

section \<open>Authorization\<close>

text \<open>
  Modelled from the spec: \<^verbatim>\<open>requires_auth\<close> and the token verification of \<^verbatim>\<open>auth/auth.py\<close>
  are not among the sources. Section 4.1 gives the verifier's failures and their order, section
  4.2 the guard. The cryptography is abstracted: a token names the key it claims (\<open>key_id\<close>)
  and carries the key material that signed it (\<open>signed_with\<close>); the signature check against
  a known key succeeds when the two agree. A header with a wrong scheme, an unparseable token
  or a token that lacks a required claim is \<open>MalformedHeader\<close>.
\<close>

record jwt =
  key_id :: string
  signed_with :: nat
  subject :: string
  expiry :: nat
  permissions :: "string list option"

datatype credentials = NoToken | MalformedHeader | Bearer jwt

record auth_env =
  signing_keys :: "(string \<times> nat) list"
  now :: nat

record auth_token =
  token_subject :: string
  token_permissions :: "string list"
  token_expiry :: nat

datatype auth_failure =
  MissingToken | MalformedToken | InvalidSignature | ExpiredToken | InsufficientScope

definition signature_valid :: "auth_env \<Rightarrow> jwt \<Rightarrow> bool" where
  "signature_valid env t = (map_of (signing_keys env) (key_id t) = Some (signed_with t))"

definition expired :: "auth_env \<Rightarrow> jwt \<Rightarrow> bool" where
  "expired env t = (expiry t < now env)"

fun verify :: "auth_env \<Rightarrow> credentials \<Rightarrow> auth_failure + auth_token" where
  "verify env NoToken = Inl MissingToken"
| "verify env MalformedHeader = Inl MalformedToken"
| "verify env (Bearer t) =
     (if \<not> signature_valid env t then Inl InvalidSignature
      else if expired env t then Inl ExpiredToken
      else Inr \<lparr>token_subject = subject t,
                token_permissions = (case permissions t of None \<Rightarrow> [] | Some ps \<Rightarrow> ps),
                token_expiry = expiry t\<rparr>)"

text \<open>
  Modelled from the spec: the status code each failure carries (401 for a missing, invalid or
  expired token, 400 for a malformed header, 403 for a missing permission) and its
  machine-readable code, for which the failure's name stands.
\<close>

fun failure_status :: "auth_failure \<Rightarrow> nat" where
  "failure_status MissingToken = 401"
| "failure_status MalformedToken = 400"
| "failure_status InvalidSignature = 401"
| "failure_status ExpiredToken = 401"
| "failure_status InsufficientScope = 403"

fun failure_code :: "auth_failure \<Rightarrow> string" where
  "failure_code MissingToken = ''MissingToken''"
| "failure_code MalformedToken = ''MalformedToken''"
| "failure_code InvalidSignature = ''InvalidSignature''"
| "failure_code ExpiredToken = ''ExpiredToken''"
| "failure_code InsufficientScope = ''InsufficientScope''"

definition raise_auth :: "auth_failure \<Rightarrow> exn" where
  "raise_auth f = AuthError (failure_code f) (failure_status f)"

record request =
  authorization :: credentials
  payload :: payload

text \<open>
  Modelled from the spec: the guard. The handler is a computation on the application's state;
  the guard runs it, with no argument added, only for a verified token that holds the
  permission, and returns its result unchanged.
\<close>

definition requires_auth ::
  "auth_env \<Rightarrow> string \<Rightarrow> ('s \<Rightarrow> (exn + 'a) \<times> 's) \<Rightarrow> request \<Rightarrow> 's \<Rightarrow> (exn + 'a) \<times> 's" where
  "requires_auth env permission handler req s =
     (case verify env (authorization req) of
        Inl f \<Rightarrow> (Inl (raise_auth f), s)
      | Inr tok \<Rightarrow>
          if permission \<in> set (token_permissions tok) then handler s
          else (Inl (raise_auth InsufficientScope), s))"

section \<open>The guarded endpoints\<close>

text \<open>
  The routes of \<^verbatim>\<open>api.py\<close> that carry \<^verbatim>\<open>@requires_auth\<close>, each with the permission its
  decorator names, and the response the framework sends for what the guarded handler
  returns or raises.
\<close>

definition drinks_detail_endpoint :: "auth_env \<Rightarrow> request \<Rightarrow> table \<Rightarrow> response \<times> table" where
  "drinks_detail_endpoint env req db =
     respond (requires_auth env ''get:drinks-detail'' get_drinks_detail req db)"

definition post_drinks_endpoint ::
  "auth_env \<Rightarrow> bool \<Rightarrow> request \<Rightarrow> table \<Rightarrow> response \<times> table" where
  "post_drinks_endpoint env commit_ok req db =
     respond (requires_auth env ''post:drinks'' (post_drink commit_ok (payload req)) req db)"

definition patch_drinks_endpoint ::
  "auth_env \<Rightarrow> bool \<Rightarrow> int \<Rightarrow> request \<Rightarrow> table \<Rightarrow> response \<times> table" where
  "patch_drinks_endpoint env commit_ok i req db =
     respond (requires_auth env ''patch:drinks'' (update_drink commit_ok i (payload req)) req db)"

definition delete_drinks_endpoint ::
  "auth_env \<Rightarrow> bool \<Rightarrow> int \<Rightarrow> request \<Rightarrow> table \<Rightarrow> response \<times> table" where
  "delete_drinks_endpoint env commit_ok i req db =
     respond (requires_auth env ''delete:drinks'' (delete_drinks commit_ok i) req db)"

section \<open>Notions used to state the properties\<close>

text \<open>
  A field is supplied by a request body when the body is a dictionary that has the key with
  a value Python counts as true.
\<close>

definition supplied :: "payload \<Rightarrow> string \<Rightarrow> pyval option" where
  "supplied p k =
     (case get_json p of
        Inl e \<Rightarrow> None
      | Inr j \<Rightarrow>
          (case j of
             PDict kvs \<Rightarrow>
               (case map_of kvs k of
                  None \<Rightarrow> None
                | Some v \<Rightarrow> if truthy v then Some v else None)
           | _ \<Rightarrow> None))"

text \<open>
  The uniform error shape: a JSON object with exactly the keys \<^verbatim>\<open>success\<close> (false),
  \<^verbatim>\<open>error\<close> (the numeric status code of the response) and \<^verbatim>\<open>message\<close> (a string).
\<close>

definition uniform_error :: "response \<Rightarrow> bool" where
  "uniform_error r =
     (case body r of
        Json (PDict [(k1, PBool ok), (k2, PInt code), (k3, PStr msg)]) \<Rightarrow>
          k1 = ''success'' \<and> \<not> ok \<and> k2 = ''error'' \<and> code = int (status r) \<and> k3 = ''message''
      | _ \<Rightarrow> False)"

text \<open>
  A run of DELETE requests on one identifier, one after the other, each with the store's
  verdict on its commit; the responses in order.
\<close>

fun delete_repeatedly :: "bool list \<Rightarrow> int \<Rightarrow> table \<Rightarrow> response list" where
  "delete_repeatedly [] i db = []"
| "delete_repeatedly (c # cs) i db =
     (case respond (delete_drinks c i db) of (r, db') \<Rightarrow> r # delete_repeatedly cs i db')"

text \<open>Concrete data for the examples.\<close>

definition water :: drink where
  "water = \<lparr>drink_id = Some 1, title = PStr ''water'', recipe = JText (PList [])\<rparr>"

definition menu :: table where
  "menu = [water]"

definition shop_env :: auth_env where
  "shop_env = \<lparr>signing_keys = [(''k1'', 11)], now = 100\<rparr>"

definition barista_jwt :: jwt where
  "barista_jwt = \<lparr>key_id = ''k1'', signed_with = 11, subject = ''barista'', expiry = 200,
                  permissions = Some [''get:drinks-detail'']\<rparr>"

definition manager_jwt :: jwt where
  "manager_jwt = \<lparr>key_id = ''k1'', signed_with = 11, subject = ''manager'', expiry = 200,
                  permissions = Some [''get:drinks-detail'', ''post:drinks'', ''patch:drinks'',
                                      ''delete:drinks'']\<rparr>"

definition anonymous :: request where
  "anonymous = \<lparr>authorization = NoToken, payload = Unparseable\<rparr>"

definition barista :: request where
  "barista = \<lparr>authorization = Bearer barista_jwt, payload = Unparseable\<rparr>"

definition manager :: request where
  "manager = \<lparr>authorization = Bearer manager_jwt, payload = Unparseable\<rparr>"

text \<open>
  What a PATCH body asks of a row: the title and the recipe it supplies replace the row's,
  the fields it does not supply stay.
\<close>

definition patched :: "payload \<Rightarrow> drink \<Rightarrow> drink" where
  "patched p r =
     r\<lparr>title := (case supplied p ''title'' of None \<Rightarrow> title r | Some t \<Rightarrow> t),
       recipe := (case supplied p ''recipe'' of None \<Rightarrow> recipe r | Some v \<Rightarrow> JText v)\<rparr>"

definition patch_rows :: "int \<Rightarrow> payload \<Rightarrow> table \<Rightarrow> table" where
  "patch_rows i p tbl = map (\<lambda>r. if drink_id r = Some i then patched p r else r) tbl"

section \<open>Facts about the table and the wrapper\<close>

lemma query_get_id: "query_get tbl i = Some d \<Longrightarrow> drink_id d = Some i"
  unfolding query_get_def by (induction tbl) (auto split: if_splits)

lemma run_transaction_Inl:
  "fst (tx db) = Inl e \<Longrightarrow> handler_result (run_transaction c tx success db) = (Inl e, db)"
  by (cases "tx db") (simp add: run_transaction_def handler_result_def)

lemma run_transaction_Inr:
  "tx db = (Inr d, s) \<Longrightarrow> handler_result (run_transaction c tx success db) =
     (if c then (Inr (success d), s) else (Inl (HTTPException 500), db))"
  by (simp add: run_transaction_def handler_result_def)

lemma update_drink_try_unparseable:
  "update_drink_try Unparseable d s = (Inl (HTTPException 400), s)"
  by (simp add: update_drink_try_def)

lemma query_get_filter_out:
  "query_get (filter (\<lambda>r. drink_id r \<noteq> Some i) tbl) i = None"
  unfolding query_get_def by (induction tbl) auto

lemma delete_drinks_missing:
  "query_get db i = None \<Longrightarrow> delete_drinks c i db = (Inl (HTTPException 404), db)"
proof -
  assume "query_get db i = None"
  then have "fst (delete_drinks_tx i db) = Inl (HTTPException 404)"
    by (simp add: delete_drinks_tx_def)
  then show ?thesis by (simp add: delete_drinks_def run_transaction_Inl)
qed

lemma delete_drinks_present:
  assumes "query_get db i = Some d"
  shows "delete_drinks c i db =
     (if c then (Inr (render_delete d), filter (\<lambda>r. drink_id r \<noteq> Some i) db)
      else (Inl (HTTPException 500), db))"
proof -
  from assms have "drink_id d = Some i" by (rule query_get_id)
  with assms have "delete_drinks_tx i db = (Inr d, filter (\<lambda>r. drink_id r \<noteq> Some i) db)"
    by (simp add: delete_drinks_tx_def delete_drink_def)
  then show ?thesis by (simp add: delete_drinks_def run_transaction_Inr)
qed

section \<open>Update: only the supplied fields change\<close>

lemma patched_id [simp]: "drink_id (patched p r) = drink_id r"
  by (simp add: patched_def)

lemma query_get_patch_rows:
  "query_get (patch_rows i p tbl) j =
     (if j = i then map_option (patched p) (query_get tbl i) else query_get tbl j)"
  unfolding query_get_def patch_rows_def by (induction tbl) auto

lemma filter_patch_rows:
  "filter (\<lambda>r. drink_id r \<noteq> Some i) (patch_rows i p tbl) =
   filter (\<lambda>r. drink_id r \<noteq> Some i) tbl"
  unfolding patch_rows_def by (induction tbl) auto

lemma patched_nothing:
  "supplied p ''title'' = None \<Longrightarrow> supplied p ''recipe'' = None \<Longrightarrow> patched p r = r"
  by (simp add: patched_def)

lemma patch_rows_nothing:
  "supplied p ''title'' = None \<Longrightarrow> supplied p ''recipe'' = None \<Longrightarrow> patch_rows i p s = s"
  unfolding patch_rows_def by (rule map_idI) (simp add: patched_nothing)

lemma patch_rows_title:
  "supplied p ''title'' = Some t \<Longrightarrow> supplied p ''recipe'' = None \<Longrightarrow>
     patch_rows i p s = map (\<lambda>r. if drink_id r = Some i then r\<lparr>title := t\<rparr> else r) s"
  unfolding patch_rows_def by (simp add: patched_def)

lemma patch_rows_recipe:
  "supplied p ''title'' = None \<Longrightarrow> supplied p ''recipe'' = Some v \<Longrightarrow>
     patch_rows i p s = map (\<lambda>r. if drink_id r = Some i then r\<lparr>recipe := JText v\<rparr> else r) s"
  unfolding patch_rows_def by (simp add: patched_def)

lemma patch_rows_both:
  "supplied p ''title'' = Some t \<Longrightarrow> supplied p ''recipe'' = Some v \<Longrightarrow>
     patch_rows i p s =
       map (\<lambda>r. if drink_id r = Some i then r\<lparr>recipe := JText v\<rparr> else r)
         (map (\<lambda>r. if drink_id r = Some i then r\<lparr>title := t\<rparr> else r) s)"
  unfolding patch_rows_def by (auto simp: patched_def)

lemma supplied_dict:
  "supplied (Parsed (PDict kvs)) k =
     (case map_of kvs k of None \<Rightarrow> None | Some v \<Rightarrow> if truthy v then Some v else None)"
  by (simp add: supplied_def)

lemma update_drink_try_dict:
  assumes "drink_id d = Some i"
  shows "update_drink_try (Parsed (PDict kvs)) d s =
     (case supplied (Parsed (PDict kvs)) ''recipe'' of
        None \<Rightarrow> (Inr (patched (Parsed (PDict kvs)) d), patch_rows i (Parsed (PDict kvs)) s)
      | Some v \<Rightarrow>
          if serializable v
          then (Inr (patched (Parsed (PDict kvs)) d), patch_rows i (Parsed (PDict kvs)) s)
          else (Inl TypeError,
                case supplied (Parsed (PDict kvs)) ''title'' of
                  None \<Rightarrow> s
                | Some t \<Rightarrow> map (\<lambda>r. if drink_id r = Some i then r\<lparr>title := t\<rparr> else r) s))"
proof -
  let ?p = "Parsed (PDict kvs)"
  consider (nn) "supplied ?p ''title'' = None" "supplied ?p ''recipe'' = None"
    | (tn) t where "supplied ?p ''title'' = Some t" "supplied ?p ''recipe'' = None"
    | (nr) v where "supplied ?p ''title'' = None" "supplied ?p ''recipe'' = Some v"
    | (tr) t v where "supplied ?p ''title'' = Some t" "supplied ?p ''recipe'' = Some v"
    by (cases "supplied ?p ''title''"; cases "supplied ?p ''recipe''") auto
  then show ?thesis
  proof cases
    case nn
    then show ?thesis
      using assms
      by (simp add: patch_rows_nothing patched_nothing)
         (auto simp: update_drink_try_def supplied_dict split: option.splits if_splits)
  next
    case tn
    then show ?thesis
      using assms
      by (simp add: patch_rows_title)
         (auto simp: update_drink_try_def supplied_dict set_title_def patched_def
            split: option.splits if_splits)
  next
    case nr
    then show ?thesis
      using assms
      by (simp add: patch_rows_recipe)
         (auto simp: update_drink_try_def supplied_dict set_recipe_def patched_def json_dumps_def
            split: option.splits if_splits)
  next
    case tr
    then show ?thesis
      using assms
      by (simp add: patch_rows_both)
         (auto simp: update_drink_try_def supplied_dict set_recipe_def set_title_def patched_def
            json_dumps_def split: option.splits if_splits)
  qed
qed


lemma supplied_not_dict:
  "(\<And>kvs. p \<noteq> Parsed (PDict kvs)) \<Longrightarrow> supplied p k = None"
  by (cases p) (auto simp: supplied_def split: pyval.splits)

lemma update_drink_try_not_dict:
  "(\<And>kvs. p \<noteq> Parsed (PDict kvs)) \<Longrightarrow> \<exists>e. update_drink_try p d s = (Inl e, s)"
proof (cases p)
  case Unparseable
  then show ?thesis by (simp add: update_drink_try_def)
next
  case (Parsed j)
  assume "\<And>kvs. p \<noteq> Parsed (PDict kvs)"
  with Parsed show ?thesis
    by (cases j) (simp_all add: update_drink_try_def)
qed

lemma update_drink_tx_cases:
  assumes "query_get db i = Some d"
  shows "update_drink_tx i p db = (Inr (patched p d), patch_rows i p db) \<or>
         fst (update_drink_tx i p db) = Inl (HTTPException 422)"
proof -
  from assms have id: "drink_id d = Some i" by (rule query_get_id)
  show ?thesis
  proof (cases "\<exists>kvs. p = Parsed (PDict kvs)")
    case True
    then obtain kvs where p: "p = Parsed (PDict kvs)" by blast
    show ?thesis
      unfolding p update_drink_tx_def
      using assms
      by (simp add: update_drink_try_dict [OF id] split: option.splits)
  next
    case False
    then have "\<exists>e. update_drink_try p d db = (Inl e, db)"
      by (intro update_drink_try_not_dict) blast
    with assms show ?thesis
      by (auto simp: update_drink_tx_def)
  qed
qed

lemma update_drink_cases:
  assumes "query_get db i = Some d"
  shows "update_drink c i p db = (Inr (render_drinks (patched p d)), patch_rows i p db) \<or>
         update_drink c i p db = (Inl (HTTPException 422), db) \<or>
         update_drink c i p db = (Inl (HTTPException 500), db)"
proof (cases "update_drink_tx i p db = (Inr (patched p d), patch_rows i p db)")
  case True
  then show ?thesis
    by (cases c) (simp_all add: update_drink_def run_transaction_Inr)
next
  case False
  with update_drink_tx_cases [OF assms, of p]
  have "fst (update_drink_tx i p db) = Inl (HTTPException 422)" by blast
  then show ?thesis
    by (simp add: update_drink_def run_transaction_Inl)
qed

text \<open>
  Claim C1. For a drink that is in the store and any PATCH request body, the update handler
  changes at most the fields the body supplies with a value Python counts as true. Whatever
  the outcome, the stored drink keeps its identifier; a title that is absent or falsy in the
  body leaves the stored title as it was, and likewise for the recipe; a stored title that
  did change is the supplied title, and a stored recipe that did change is the text of the
  supplied recipe. When the request succeeds (status 200) the stored drink is the old one
  with exactly the supplied fields replaced, and the response renders it. The drinks with
  other identifiers are not touched.
\<close>

theorem update_drink_changes_only_supplied:
  assumes "query_get db i = Some d"
  shows "\<exists>d'. query_get (snd (respond (update_drink commit_ok i p db))) i = Some d' \<and>
      drink_id d' = Some i \<and>
      (supplied p ''title'' = None \<longrightarrow> title d' = title d) \<and>
      (supplied p ''recipe'' = None \<longrightarrow> recipe d' = recipe d) \<and>
      (title d' \<noteq> title d \<longrightarrow> supplied p ''title'' = Some (title d')) \<and>
      (recipe d' \<noteq> recipe d \<longrightarrow> (\<exists>v. supplied p ''recipe'' = Some v \<and> recipe d' = JText v)) \<and>
      (status (fst (respond (update_drink commit_ok i p db))) = 200 \<longrightarrow>
         d' = patched p d \<and>
         respond (update_drink commit_ok i p db) =
           (render_drinks (patched p d), patch_rows i p db)) \<and>
      filter (\<lambda>r. drink_id r \<noteq> Some i) (snd (respond (update_drink commit_ok i p db))) =
        filter (\<lambda>r. drink_id r \<noteq> Some i) db"
proof -
  from assms have id: "drink_id d = Some i" by (rule query_get_id)
  have f1: "supplied p ''title'' = None \<longrightarrow> title (patched p d) = title d"
    by (simp add: patched_def)
  have f2: "supplied p ''recipe'' = None \<longrightarrow> recipe (patched p d) = recipe d"
    by (simp add: patched_def)
  have f3: "title (patched p d) \<noteq> title d \<longrightarrow>
      supplied p ''title'' = Some (title (patched p d))"
    by (cases "supplied p ''title''") (simp_all add: patched_def)
  have f4: "recipe (patched p d) \<noteq> recipe d \<longrightarrow>
      (\<exists>v. supplied p ''recipe'' = Some v \<and> recipe (patched p d) = JText v)"
    by (cases "supplied p ''recipe''") (simp_all add: patched_def)
  from update_drink_cases [OF assms, of commit_ok p]
  consider (ok) "update_drink commit_ok i p db =
                   (Inr (render_drinks (patched p d)), patch_rows i p db)"
    | (unprocessable) "update_drink commit_ok i p db = (Inl (HTTPException 422), db)"
    | (server) "update_drink commit_ok i p db = (Inl (HTTPException 500), db)"
    by blast
  then show ?thesis
  proof cases
    case ok
    then have r: "respond (update_drink commit_ok i p db) =
        (render_drinks (patched p d), patch_rows i p db)"
      by simp
    have q: "query_get (patch_rows i p db) i = Some (patched p d)"
      by (simp add: query_get_patch_rows assms)
    have g: "filter (\<lambda>r. drink_id r \<noteq> Some i) (patch_rows i p db) =
        filter (\<lambda>r. drink_id r \<noteq> Some i) db"
      by (rule filter_patch_rows)
    have i': "drink_id (patched p d) = Some i"
      using id by simp
    show ?thesis
      unfolding r snd_conv fst_conv
      using q i' f1 f2 f3 f4 g by (intro exI [of _ "patched p d"]) blast
  next
    case unprocessable
    then have r: "respond (update_drink commit_ok i p db) = (unprocessable, db)"
      by simp
    have s: "status unprocessable \<noteq> 200"
      by (simp add: unprocessable_def)
    show ?thesis
      unfolding r snd_conv fst_conv
      using assms id s by (intro exI [of _ d]) simp
  next
    case server
    then have r: "respond (update_drink commit_ok i p db) =
        (\<lparr>status = 500, body = DefaultPage 500\<rparr>, db)"
      by simp
    show ?thesis
      unfolding r snd_conv fst_conv
      using assms id by (intro exI [of _ d]) simp
  qed
qed


theorem update_drink_changes_only_supplied_witness:
  "query_get menu 1 = Some water \<and>
   supplied (Parsed (PDict [(''title'', PStr ''tea'')])) ''recipe'' = None \<and>
   (\<exists>d'. query_get
            (snd (respond (update_drink True 1 (Parsed (PDict [(''title'', PStr ''tea'')])) menu)))
            1 = Some d' \<and>
         recipe d' = recipe water)"
proof -
  have q: "query_get menu 1 = Some water"
    by (simp add: query_get_def menu_def water_def)
  have n: "supplied (Parsed (PDict [(''title'', PStr ''tea'')])) ''recipe'' = None"
    by (simp add: supplied_def)
  have e: "\<exists>d'. query_get
            (snd (respond (update_drink True 1 (Parsed (PDict [(''title'', PStr ''tea'')])) menu)))
            1 = Some d' \<and>
         recipe d' = recipe water"
    using update_drink_changes_only_supplied
         [OF q, of True "Parsed (PDict [(''title'', PStr ''tea'')])"]
  proof (elim exE conjE)
    fix d'
    assume a: "query_get
          (snd (respond (update_drink True 1 (Parsed (PDict [(''title'', PStr ''tea'')])) menu)))
          1 = Some d'"
      and b: "supplied (Parsed (PDict [(''title'', PStr ''tea'')])) ''recipe'' = None \<longrightarrow>
            recipe d' = recipe water"
    from b n have "recipe d' = recipe water" by (rule mp)
    with a show ?thesis by (intro exI [of _ d'] conjI)
  qed
  from q n e show ?thesis by (intro conjI)
qed

section \<open>Create: unprocessable bodies\<close>

text \<open>
  Claim C2. Whenever the \<^verbatim>\<open>try\<close> block of the create handler raises (reading the body,
  reading a field or building the drink), the response is the 422 one and the store is what
  it was: nothing is inserted. In particular this is so for a body whose \<^verbatim>\<open>recipe\<close> value
  \<^verbatim>\<open>json.dumps\<close> cannot serialize. It holds whatever the store would answer to a commit.
\<close>

theorem post_drink_unprocessable:
  "(post_drink_try p = Inl e \<longrightarrow>
      respond (post_drink commit_ok p db) = (unprocessable, db) \<and> status unprocessable = 422) \<and>
   (map_of kvs ''recipe'' = Some r \<and> \<not> serializable r \<longrightarrow>
      respond (post_drink commit_ok (Parsed (PDict kvs)) db) = (unprocessable, db))"
proof -
  have a: "respond (post_drink commit_ok q db) = (unprocessable, db)"
    if "post_drink_try q = Inl x" for q x
  proof -
    from that have "fst (post_drink_tx q db) = Inl (HTTPException 422)"
      by (simp add: post_drink_tx_def)
    then show ?thesis
      by (simp add: post_drink_def run_transaction_Inl)
  qed
  have b: "post_drink_try (Parsed (PDict kvs)) = Inl TypeError"
    if "map_of kvs ''recipe'' = Some r" "\<not> serializable r"
    using that by (simp add: post_drink_try_def json_dumps_def)
  show ?thesis using a b by (auto simp: unprocessable_def)
qed

theorem post_drink_unprocessable_witness:
  "post_drink_try Unparseable = Inl (HTTPException 400) \<and>
   respond (post_drink True Unparseable menu) = (unprocessable, menu) \<and>
   \<not> serializable (PObject True) \<and>
   respond (post_drink True (Parsed (PDict [(''recipe'', PObject True)])) menu) =
     (unprocessable, menu)"
  using post_drink_unprocessable
    [of Unparseable "HTTPException 400" True menu "[(''recipe'', PObject True)]" "PObject True"]
  by (simp add: post_drink_try_def)

section \<open>The transaction wrapper: commit or rollback\<close>

text \<open>
  Claim C3, as amended. In every run of the transaction wrapper the unit of work is executed
  exactly once; the mutation is committed if and only if the unit of work returns normally
  and the store accepts the commit; a rollback occurs exactly when no commit does, so exactly
  one of the two occurs; and the store afterwards is the session's table after a commit and
  the table from before the run otherwise.
\<close>

theorem run_transaction_commit_xor_rollback:
  "count_list (trace (run_transaction commit_ok tx success db)) Executed = 1 \<and>
   (Committed \<in> set (trace (run_transaction commit_ok tx success db)) \<longleftrightarrow>
      \<not> isl (fst (tx db)) \<and> commit_ok) \<and>
   (RolledBack \<in> set (trace (run_transaction commit_ok tx success db)) \<longleftrightarrow>
      Committed \<notin> set (trace (run_transaction commit_ok tx success db))) \<and>
   count_list (trace (run_transaction commit_ok tx success db)) Committed +
   count_list (trace (run_transaction commit_ok tx success db)) RolledBack = 1 \<and>
   store (run_transaction commit_ok tx success db) =
     (if Committed \<in> set (trace (run_transaction commit_ok tx success db))
      then snd (tx db) else db)"
proof (cases "tx db")
  case (Pair res session)
  then show ?thesis
    by (cases res) (simp_all add: run_transaction_def)
qed

theorem run_transaction_commit_xor_rollback_witness:
  "trace (run_transaction False (delete_drinks_tx 1) render_delete menu) =
     [Executed, CommitFailed, RolledBack] \<and>
   store (run_transaction False (delete_drinks_tx 1) render_delete menu) = menu \<and>
   trace (run_transaction True (delete_drinks_tx 1) render_delete menu) = [Executed, Committed] \<and>
   store (run_transaction True (delete_drinks_tx 1) render_delete menu) = []"
  using run_transaction_commit_xor_rollback [of False "delete_drinks_tx 1" render_delete menu]
    run_transaction_commit_xor_rollback [of True "delete_drinks_tx 1" render_delete menu]
  by (simp add: run_transaction_def delete_drinks_tx_def query_get_def menu_def water_def
      delete_drink_def)

text \<open>
  The claim as it was stated fails where the commit itself fails: the unit of work of a
  DELETE on the stored drink 1 returns normally, and yet nothing is committed and the store
  keeps the drink.
\<close>

theorem run_transaction_commit_counterexample:
  "\<not> isl (fst (delete_drinks_tx 1 menu)) \<and>
   Committed \<notin> set (trace (run_transaction False (delete_drinks_tx 1) render_delete menu)) \<and>
   store (run_transaction False (delete_drinks_tx 1) render_delete menu) = menu"
  by (simp add: run_transaction_def delete_drinks_tx_def query_get_def menu_def water_def
      delete_drink_def)

section \<open>The authorization guard\<close>

lemma verify_Inr_iff:
  "verify env c = Inr tok \<longleftrightarrow>
     (\<exists>t. c = Bearer t \<and> signature_valid env t \<and> \<not> expired env t \<and>
          tok = \<lparr>token_subject = subject t,
                 token_permissions = (case permissions t of None \<Rightarrow> [] | Some ps \<Rightarrow> ps),
                 token_expiry = expiry t\<rparr>)"
  by (cases c) auto

text \<open>
  Claim C4. A guarded handler is run only for a request whose token verifies (its signature
  checks against a known key and it has not expired) and holds the required permission. For
  every other request the guard answers with one authorization error whatever the handler
  is, and the state is the one from before, so the handler body has not run. When the token
  verifies and the permission is not among its permissions, the error is InsufficientScope
  and the status 403. For an authorized request the guard returns what the handler returns.
\<close>

theorem requires_auth_guards_handler:
  fixes handler :: "'s \<Rightarrow> (exn + response) \<times> 's"
  shows
  "(\<not> (\<exists>t. authorization req = Bearer t \<and> signature_valid env t \<and> \<not> expired env t \<and>
           permission \<in> set (case permissions t of None \<Rightarrow> [] | Some ps \<Rightarrow> ps)) \<longrightarrow>
      (\<exists>f. \<forall>h :: 's \<Rightarrow> (exn + response) \<times> 's.
         requires_auth env permission h req s = (Inl (raise_auth f), s))) \<and>
   (verify env (authorization req) = Inr tok \<and> permission \<notin> set (token_permissions tok) \<longrightarrow>
      requires_auth env permission handler req s = (Inl (AuthError ''InsufficientScope'' 403), s) \<and>
      status (fst (respond (requires_auth env permission handler req s))) = 403) \<and>
   (verify env (authorization req) = Inr tok \<and> permission \<in> set (token_permissions tok) \<longrightarrow>
      requires_auth env permission handler req s = handler s)"
proof (intro conjI impI)
  assume na: "\<not> (\<exists>t. authorization req = Bearer t \<and> signature_valid env t \<and> \<not> expired env t \<and>
           permission \<in> set (case permissions t of None \<Rightarrow> [] | Some ps \<Rightarrow> ps))"
  show "\<exists>f. \<forall>h :: 's \<Rightarrow> (exn + response) \<times> 's.
         requires_auth env permission h req s = (Inl (raise_auth f), s)"
  proof (cases "verify env (authorization req)")
    case (Inl f)
    then show ?thesis by (auto simp: requires_auth_def)
  next
    case (Inr tok')
    with na have "permission \<notin> set (token_permissions tok')"
      by (auto simp: verify_Inr_iff)
    with Inr show ?thesis by (auto simp: requires_auth_def)
  qed
next
  assume "verify env (authorization req) = Inr tok \<and> permission \<notin> set (token_permissions tok)"
  then show "requires_auth env permission handler req s =
      (Inl (AuthError ''InsufficientScope'' 403), s)"
    by (simp add: requires_auth_def raise_auth_def)
  then show "status (fst (respond (requires_auth env permission handler req s))) = 403"
    by (simp add: auth_error_def)
next
  assume "verify env (authorization req) = Inr tok \<and> permission \<in> set (token_permissions tok)"
  then show "requires_auth env permission handler req s = handler s"
    by (simp add: requires_auth_def)
qed

theorem requires_auth_guards_handler_witness:
  "requires_auth shop_env ''delete:drinks'' (delete_drinks True 1) barista menu =
     (Inl (AuthError ''InsufficientScope'' 403), menu) \<and>
   requires_auth shop_env ''delete:drinks'' (delete_drinks True 1) manager menu =
     delete_drinks True 1 menu \<and>
   (\<exists>f. \<forall>h :: table \<Rightarrow> (exn + response) \<times> table.
      requires_auth shop_env ''delete:drinks'' h anonymous menu = (Inl (raise_auth f), menu))"
proof -
  have v1: "verify shop_env (authorization barista) =
      Inr \<lparr>token_subject = ''barista'', token_permissions = [''get:drinks-detail''],
           token_expiry = 200\<rparr>"
    by (simp add: shop_env_def barista_def barista_jwt_def signature_valid_def expired_def)
  have v2: "verify shop_env (authorization manager) =
      Inr \<lparr>token_subject = ''manager'',
           token_permissions = [''get:drinks-detail'', ''post:drinks'', ''patch:drinks'',
                                ''delete:drinks''],
           token_expiry = 200\<rparr>"
    by (simp add: shop_env_def manager_def manager_jwt_def signature_valid_def expired_def)
  have v3: "authorization anonymous = NoToken"
    by (simp add: anonymous_def)
  have a: "requires_auth shop_env ''delete:drinks'' (delete_drinks True 1) barista menu =
     (Inl (AuthError ''InsufficientScope'' 403), menu)"
    using requires_auth_guards_handler [where req = barista and env = shop_env
        and permission = "''delete:drinks''" and s = menu and handler = "delete_drinks True 1"
        and tok = "\<lparr>token_subject = ''barista'', token_permissions = [''get:drinks-detail''],
           token_expiry = 200\<rparr>"] v1
    by simp
  have b: "requires_auth shop_env ''delete:drinks'' (delete_drinks True 1) manager menu =
     delete_drinks True 1 menu"
    using requires_auth_guards_handler [where req = manager and env = shop_env
        and permission = "''delete:drinks''" and s = menu and handler = "delete_drinks True 1"
        and tok = "\<lparr>token_subject = ''manager'',
           token_permissions = [''get:drinks-detail'', ''post:drinks'', ''patch:drinks'',
                                ''delete:drinks''],
           token_expiry = 200\<rparr>"] v2
    by simp
  have c: "\<exists>f. \<forall>h :: table \<Rightarrow> (exn + response) \<times> table.
      requires_auth shop_env ''delete:drinks'' h anonymous menu = (Inl (raise_auth f), menu)"
    using requires_auth_guards_handler [where req = anonymous and env = shop_env
        and permission = "''delete:drinks''" and s = menu and handler = "delete_drinks True 1"] v3
    by simp
  show ?thesis using a b c by blast
qed

section \<open>Delete\<close>

text \<open>
  Claim C5, as amended. A DELETE on an identifier that no stored drink has is answered with
  the 404 response and leaves the store as it is. When a drink has the identifier and the
  store accepts the commit, all rows with the identifier are removed and the others kept, so
  neither a lookup nor a listing of the store finds the identifier afterwards, and the
  response has status 200 and the body \<^verbatim>\<open>{success: true, delete: id}\<close>, the identifier and
  not the drink. When the commit fails the drink stays and the response is the server
  error.
\<close>

theorem delete_drinks_outcome:
  "(query_get db i = None \<longrightarrow>
      respond (delete_drinks commit_ok i db) = (resource_not_found, db) \<and>
      status resource_not_found = 404) \<and>
   (query_get db i \<noteq> None \<and> commit_ok \<longrightarrow>
      respond (delete_drinks commit_ok i db) =
        (\<lparr>status = 200,
          body = Json (PDict [(''success'', PBool True), (''delete'', PInt i)])\<rparr>,
         filter (\<lambda>r. drink_id r \<noteq> Some i) db) \<and>
      query_get (snd (respond (delete_drinks commit_ok i db))) i = None \<and>
      (\<forall>d \<in> set (query_all (snd (respond (delete_drinks commit_ok i db)))).
         drink_id d \<noteq> Some i)) \<and>
   (query_get db i \<noteq> None \<and> \<not> commit_ok \<longrightarrow>
      respond (delete_drinks commit_ok i db) = (\<lparr>status = 500, body = DefaultPage 500\<rparr>, db))"
proof (cases "query_get db i")
  case None
  then show ?thesis
    by (simp add: delete_drinks_missing resource_not_found_def)
next
  case (Some d)
  then have id: "drink_id d = Some i" by (rule query_get_id)
  have "query_get (filter (\<lambda>r. drink_id r \<noteq> Some i) db) i = None"
    by (rule query_get_filter_out)
  with Some id show ?thesis
    by (simp add: delete_drinks_present render_delete_def jsonify_def query_all_def)
qed

theorem delete_drinks_outcome_witness:
  "query_get menu 1 \<noteq> None \<and>
   respond (delete_drinks True 1 menu) =
     (\<lparr>status = 200, body = Json (PDict [(''success'', PBool True), (''delete'', PInt 1)])\<rparr>, []) \<and>
   query_get menu 2 = None \<and>
   respond (delete_drinks True 2 menu) = (resource_not_found, menu)"
proof -
  have h1: "query_get menu 1 \<noteq> None"
    by (simp add: query_get_def menu_def water_def)
  have h2: "query_get menu 2 = None"
    by (simp add: query_get_def menu_def water_def)
  have f: "filter (\<lambda>r. drink_id r \<noteq> Some 1) menu = []"
    by (simp add: menu_def water_def)
  from h1 delete_drinks_outcome [of menu 1 True]
  have a: "respond (delete_drinks True 1 menu) =
     (\<lparr>status = 200, body = Json (PDict [(''success'', PBool True), (''delete'', PInt 1)])\<rparr>,
      filter (\<lambda>r. drink_id r \<noteq> Some 1) menu)"
    by blast
  from h2 delete_drinks_outcome [of menu 2 True]
  have b: "respond (delete_drinks True 2 menu) = (resource_not_found, menu)"
    by blast
  show ?thesis using h1 h2 a b f by simp
qed


text \<open>
  The claim as it was stated fails where the commit fails: drink 1 is in the store, the
  DELETE is answered with status 500, and the drink is still there.
\<close>

theorem delete_drinks_commit_counterexample:
  "query_get menu 1 = Some water \<and>
   respond (delete_drinks False 1 menu) = (\<lparr>status = 500, body = DefaultPage 500\<rparr>, menu) \<and>
   query_get (snd (respond (delete_drinks False 1 menu))) 1 = Some water"
  by (simp add: delete_drinks_def run_transaction_def handler_result_def delete_drinks_tx_def
      query_get_def menu_def water_def delete_drink_def)

section \<open>Repeated deletes\<close>

lemma delete_repeatedly_missing:
  "query_get db i = None \<Longrightarrow>
     delete_repeatedly cs i db = replicate (length cs) resource_not_found"
  by (induction cs) (simp_all add: delete_drinks_missing)

text \<open>
  Claim C6. After a DELETE on an identifier has succeeded (status 200), every further
  DELETE on the same identifier, however many follow and whatever the store would answer to
  a commit, gets the 404 response; none succeeds a second time.
\<close>

theorem delete_drinks_idempotent:
  assumes "respond (delete_drinks c i db) = (r, db')" and "status r = 200"
  shows "delete_repeatedly cs i db' = replicate (length cs) resource_not_found \<and>
         (\<forall>r' \<in> set (delete_repeatedly cs i db'). status r' = 404)"
proof -
  have gone: "query_get db' i = None"
  proof (cases "query_get db i")
    case None
    with assms show ?thesis
      by (auto simp: delete_drinks_missing resource_not_found_def)
  next
    case (Some d)
    with assms have "db' = filter (\<lambda>r. drink_id r \<noteq> Some i) db"
      by (auto simp: delete_drinks_present split: if_splits)
    then show ?thesis by (simp add: query_get_filter_out)
  qed
  then have "delete_repeatedly cs i db' = replicate (length cs) resource_not_found"
    by (rule delete_repeatedly_missing)
  then show ?thesis by (simp add: resource_not_found_def)
qed



theorem delete_drinks_idempotent_witness:
  "respond (delete_drinks True 1 menu) =
     (\<lparr>status = 200, body = Json (PDict [(''success'', PBool True), (''delete'', PInt 1)])\<rparr>, []) \<and>
   delete_repeatedly [True, False, True] 1 [] =
     [resource_not_found, resource_not_found, resource_not_found]"
proof -
  have h: "respond (delete_drinks True 1 menu) =
     (\<lparr>status = 200, body = Json (PDict [(''success'', PBool True), (''delete'', PInt 1)])\<rparr>, [])"
    by (simp add: delete_drinks_def run_transaction_def handler_result_def delete_drinks_tx_def
      query_get_def menu_def water_def delete_drink_def render_delete_def jsonify_def)
  have s: "status \<lparr>status = 200,
      body = Json (PDict [(''success'', PBool True), (''delete'', PInt 1)])\<rparr> = 200"
    by simp
  have "delete_repeatedly [True, False, True] 1 [] =
      replicate (length [True, False, True]) resource_not_found"
    using delete_drinks_idempotent [OF h s, of "[True, False, True]"] by blast
  then have "delete_repeatedly [True, False, True] 1 [] =
     [resource_not_found, resource_not_found, resource_not_found]"
    by (simp add: numeral_3_eq_3)
  with h show ?thesis by blast
qed

section \<open>The shape of the error responses\<close>

lemma uniform_unprocessable: "uniform_error unprocessable"
  by (simp add: uniform_error_def unprocessable_def)

lemma uniform_resource_not_found: "uniform_error resource_not_found"
  by (simp add: uniform_error_def resource_not_found_def)

lemma uniform_auth_error: "uniform_error (auth_error msg code)"
  by (simp add: uniform_error_def auth_error_def)

lemma run_transaction_outcome:
  "fst (handler_result (run_transaction c tx success db)) = Inl e \<Longrightarrow>
     e = HTTPException 500 \<or> fst (tx db) = Inl e"
  by (cases "tx db") (auto simp: run_transaction_def handler_result_def split: sum.splits if_splits)

lemma run_transaction_success:
  "fst (handler_result (run_transaction c tx success db)) = Inr r \<Longrightarrow>
     \<exists>d. r = success d"
  by (cases "tx db") (auto simp: run_transaction_def handler_result_def split: sum.splits if_splits)

lemma post_drink_tx_exn:
  "fst (post_drink_tx p db) = Inl e \<Longrightarrow> e = HTTPException 422"
  by (auto simp: post_drink_tx_def split: sum.splits prod.splits)

lemma update_drink_tx_exn:
  "fst (update_drink_tx i p db) = Inl e \<Longrightarrow> e = HTTPException 404 \<or> e = HTTPException 422"
  by (auto simp: update_drink_tx_def split: option.splits sum.splits prod.splits)

lemma delete_drinks_tx_exn:
  "fst (delete_drinks_tx i db) = Inl e \<Longrightarrow> e = HTTPException 404"
  by (auto simp: delete_drinks_tx_def split: option.splits)

lemma respond_expected:
  assumes "\<And>e. fst h = Inl e \<Longrightarrow>
             e = HTTPException 404 \<or> e = HTTPException 422 \<or> e = HTTPException 500 \<or>
             (\<exists>m c. e = AuthError m c)"
    and "\<And>r. fst h = Inr r \<Longrightarrow> status r = 200"
  shows "status (fst (respond h)) = 200 \<or> fst (respond h) = \<lparr>status = 500, body = DefaultPage 500\<rparr> \<or> uniform_error (fst (respond h))"
proof (cases h)
  case (Pair res s)
  show ?thesis
  proof (cases res)
    case (Inl e)
    with Pair assms(1) [of e] show ?thesis
      by (auto simp: uniform_unprocessable uniform_resource_not_found
          uniform_auth_error)
  next
    case (Inr r)
    with Pair assms(2) [of r] show ?thesis
      by simp
  qed
qed

lemma requires_auth_cases:
  "requires_auth env perm h req s = h s \<or>
   (\<exists>f. requires_auth env perm h req s = (Inl (raise_auth f), s))"
  by (auto simp: requires_auth_def split: sum.splits)


lemma guarded_expected:
  assumes "\<And>e. fst (h s) = Inl e \<Longrightarrow>
             e = HTTPException 404 \<or> e = HTTPException 422 \<or> e = HTTPException 500"
    and "\<And>r. fst (h s) = Inr r \<Longrightarrow> status r = 200"
  shows "status (fst (respond (requires_auth env perm h req s))) = 200 \<or>
         fst (respond (requires_auth env perm h req s)) = \<lparr>status = 500, body = DefaultPage 500\<rparr> \<or>
         uniform_error (fst (respond (requires_auth env perm h req s)))"
proof (rule respond_expected)
  fix e assume "fst (requires_auth env perm h req s) = Inl e"
  with requires_auth_cases [of env perm h req s] assms(1) [of e]
  show "e = HTTPException 404 \<or> e = HTTPException 422 \<or> e = HTTPException 500 \<or>
        (\<exists>m c. e = AuthError m c)"
    by (auto simp: raise_auth_def)
next
  fix r assume "fst (requires_auth env perm h req s) = Inr r"
  with requires_auth_cases [of env perm h req s] assms(2) [of r]
  show "status r = 200" by auto
qed

lemma tx_handler_expected:
  assumes "\<And>e. fst (tx db) = Inl e \<Longrightarrow> e = HTTPException 404 \<or> e = HTTPException 422"
    and "\<And>d. status (success d) = 200"
  shows "status (fst (respond (requires_auth env perm
            (\<lambda>s. handler_result (run_transaction c tx success s)) req db))) = 200 \<or>
         fst (respond (requires_auth env perm
            (\<lambda>s. handler_result (run_transaction c tx success s)) req db)) =
           \<lparr>status = 500, body = DefaultPage 500\<rparr> \<or>
         uniform_error (fst (respond (requires_auth env perm
            (\<lambda>s. handler_result (run_transaction c tx success s)) req db)))"
proof (rule guarded_expected)
  fix e assume "fst (handler_result (run_transaction c tx success db)) = Inl e"
  with run_transaction_outcome [of c tx success db e] assms(1) [of e]
  show "e = HTTPException 404 \<or> e = HTTPException 422 \<or> e = HTTPException 500"
    by blast
next
  fix r assume "fst (handler_result (run_transaction c tx success db)) = Inr r"
  with run_transaction_success [of c tx success db r] assms(2)
  show "status r = 200" by blast
qed

lemma status_render_drinks: "status (render_drinks d) = 200"
  by (simp add: render_drinks_def jsonify_def)

lemma status_render_delete: "status (render_delete d) = 200"
  by (simp add: render_delete_def jsonify_def)

text \<open>
  Claim C7, as amended. The responses for the failures that have a registered handler
  (a 404, a 422 and every authorization error) have the uniform JSON body: exactly the keys
  \<^verbatim>\<open>success\<close> (false), \<^verbatim>\<open>error\<close> (the numeric status code of the response) and
  \<^verbatim>\<open>message\<close> (a string), and nothing else. Every response of the four guarded endpoints is
  a success with status 200, or such a uniform error, or the framework's own page for a
  server error with status 500, for which no handler is registered.
\<close>

theorem error_responses_uniform:
  "(e = HTTPException 404 \<or> e = HTTPException 422 \<or> e = AuthError msg code \<longrightarrow>
      uniform_error (handle_exception e)) \<and>
   (r = fst (drinks_detail_endpoint env req db) \<or>
    r = fst (post_drinks_endpoint env commit_ok req db) \<or>
    r = fst (patch_drinks_endpoint env commit_ok i req db) \<or>
    r = fst (delete_drinks_endpoint env commit_ok i req db) \<longrightarrow>
      status r = 200 \<or> r = \<lparr>status = 500, body = DefaultPage 500\<rparr> \<or> uniform_error r)"
proof -
  have a: "uniform_error (handle_exception e)"
    if "e = HTTPException 404 \<or> e = HTTPException 422 \<or> e = AuthError msg code"
    using that
    by (auto simp: uniform_unprocessable uniform_resource_not_found uniform_auth_error)
  have g: "status (fst (drinks_detail_endpoint env req db)) = 200 \<or>
      fst (drinks_detail_endpoint env req db) = \<lparr>status = 500, body = DefaultPage 500\<rparr> \<or>
      uniform_error (fst (drinks_detail_endpoint env req db))"
    unfolding drinks_detail_endpoint_def
    by (rule guarded_expected) (auto simp: get_drinks_detail_def jsonify_def)
  have p: "status (fst (post_drinks_endpoint env commit_ok req db)) = 200 \<or>
      fst (post_drinks_endpoint env commit_ok req db) = \<lparr>status = 500, body = DefaultPage 500\<rparr> \<or>
      uniform_error (fst (post_drinks_endpoint env commit_ok req db))"
    unfolding post_drinks_endpoint_def post_drink_def [abs_def]
    by (rule tx_handler_expected) (auto dest: post_drink_tx_exn simp: status_render_drinks)
  have u: "status (fst (patch_drinks_endpoint env commit_ok i req db)) = 200 \<or>
      fst (patch_drinks_endpoint env commit_ok i req db) = \<lparr>status = 500, body = DefaultPage 500\<rparr> \<or>
      uniform_error (fst (patch_drinks_endpoint env commit_ok i req db))"
    unfolding patch_drinks_endpoint_def update_drink_def [abs_def]
    by (rule tx_handler_expected) (auto dest: update_drink_tx_exn simp: status_render_drinks)
  have d: "status (fst (delete_drinks_endpoint env commit_ok i req db)) = 200 \<or>
      fst (delete_drinks_endpoint env commit_ok i req db) = \<lparr>status = 500, body = DefaultPage 500\<rparr> \<or>
      uniform_error (fst (delete_drinks_endpoint env commit_ok i req db))"
    unfolding delete_drinks_endpoint_def delete_drinks_def [abs_def]
    by (rule tx_handler_expected) (auto dest: delete_drinks_tx_exn simp: status_render_delete)
  show ?thesis using a g p u d by blast
qed

theorem error_responses_uniform_witness:
  "uniform_error (handle_exception (AuthError ''ExpiredToken'' 401)) \<and>
   uniform_error (handle_exception (HTTPException 404)) \<and>
   uniform_error (handle_exception (HTTPException 422)) \<and>
   (status (fst (delete_drinks_endpoint shop_env True 1 barista menu)) = 200 \<or>
    fst (delete_drinks_endpoint shop_env True 1 barista menu) =
      \<lparr>status = 500, body = DefaultPage 500\<rparr> \<or>
    uniform_error (fst (delete_drinks_endpoint shop_env True 1 barista menu)))"
proof -
  note t = error_responses_uniform [where env = shop_env and req = barista and db = menu
      and commit_ok = True and i = 1
      and r = "fst (delete_drinks_endpoint shop_env True 1 barista menu)"]
  have a: "uniform_error (handle_exception (AuthError ''ExpiredToken'' 401))"
    using t [where e = "AuthError ''ExpiredToken'' 401" and msg = "''ExpiredToken''"
        and code = 401]
    by simp
  have b: "uniform_error (handle_exception (HTTPException 404))"
    using t [where e = "HTTPException 404"] by simp
  have c: "uniform_error (handle_exception (HTTPException 422))"
    using t [where e = "HTTPException 422"] by simp
  have d: "status (fst (delete_drinks_endpoint shop_env True 1 barista menu)) = 200 \<or>
    fst (delete_drinks_endpoint shop_env True 1 barista menu) =
      \<lparr>status = 500, body = DefaultPage 500\<rparr> \<or>
    uniform_error (fst (delete_drinks_endpoint shop_env True 1 barista menu))"
    using t [where e = "HTTPException 404"] by simp
  from a b c d show ?thesis by (intro conjI)
qed

text \<open>
  The claim as it was stated fails for server errors: status 500 has no registered handler, so
  its response does not have the uniform body. A DELETE by an authorized client whose commit
  fails is answered that way.
\<close>

theorem server_error_not_uniform_counterexample:
  "\<not> uniform_error (handle_exception (HTTPException 500)) \<and>
   fst (delete_drinks_endpoint shop_env False 1 manager menu) =
     \<lparr>status = 500, body = DefaultPage 500\<rparr> \<and>
   \<not> uniform_error (fst (delete_drinks_endpoint shop_env False 1 manager menu))"
proof -
  have v: "verify shop_env (authorization manager) =
      Inr \<lparr>token_subject = ''manager'',
           token_permissions = [''get:drinks-detail'', ''post:drinks'', ''patch:drinks'',
                                ''delete:drinks''],
           token_expiry = 200\<rparr>"
    by (simp add: shop_env_def manager_def manager_jwt_def signature_valid_def expired_def)
  have q: "query_get menu 1 = Some water"
    by (simp add: query_get_def menu_def water_def)
  have d: "delete_drinks False 1 menu = (Inl (HTTPException 500), menu)"
    using delete_drinks_present [OF q, of False] by simp
  have e: "fst (delete_drinks_endpoint shop_env False 1 manager menu) =
     \<lparr>status = 500, body = DefaultPage 500\<rparr>"
    by (simp add: delete_drinks_endpoint_def requires_auth_def v d)
  show ?thesis
    by (simp add: e) (simp add: uniform_error_def)
qed

section \<open>Update: the identifier is not in the store\<close>

text \<open>
  Claim C8. A PATCH on an identifier that no stored drink has is answered with the 404
  response, and the store is unchanged, for every request body.
\<close>

theorem update_drink_not_found:
  "query_get db i = None \<Longrightarrow>
     respond (update_drink commit_ok i p db) = (resource_not_found, db) \<and>
     status resource_not_found = 404"
proof -
  assume "query_get db i = None"
  then have "fst (update_drink_tx i p db) = Inl (HTTPException 404)"
    by (simp add: update_drink_tx_def)
  then show ?thesis
    by (simp add: update_drink_def run_transaction_Inl resource_not_found_def)
qed

theorem update_drink_not_found_witness:
  "query_get menu 7 = None \<and>
   respond (update_drink True 7 (Parsed (PDict [(''title'', PStr ''tea'')])) menu) =
     (resource_not_found, menu)"
proof -
  have h: "query_get menu 7 = None"
    by (simp add: query_get_def menu_def water_def)
  show ?thesis
    using h update_drink_not_found [OF h, of True "Parsed (PDict [(''title'', PStr ''tea'')])"]
    by simp
qed

section \<open>Create: defaults and the response\<close>

lemma row_ids_mem: "r \<in> set tbl \<Longrightarrow> drink_id r = Some i \<Longrightarrow> i \<in> set (row_ids tbl)"
  by (induction tbl) (auto split: option.splits)

lemma foldr_max_ge: "i \<in> set xs \<Longrightarrow> i \<le> foldr max xs (0::int)"
  by (induction xs) auto

lemma new_id_fresh: "r \<in> set tbl \<Longrightarrow> drink_id r \<noteq> Some (new_id tbl)"
proof
  assume "r \<in> set tbl" and "drink_id r = Some (new_id tbl)"
  then have "new_id tbl \<in> set (row_ids tbl)" by (rule row_ids_mem)
  then have "new_id tbl \<le> foldr max (row_ids tbl) 0" by (rule foldr_max_ge)
  then show False by (simp add: new_id_def)
qed

lemma query_get_new_id: "query_get tbl (new_id tbl) = None"
  unfolding query_get_def by (simp add: find_None_iff new_id_fresh)

lemma query_get_append:
  "query_get (tbl @ [d]) j =
     (case query_get tbl j of None \<Rightarrow> (if drink_id d = Some j then Some d else None)
      | Some r \<Rightarrow> Some r)"
  unfolding query_get_def by (induction tbl) auto

lemma post_drink_try_dict:
  "post_drink_try (Parsed (PDict kvs)) =
     (if serializable (case map_of kvs ''recipe'' of None \<Rightarrow> PList [] | Some v \<Rightarrow> v)
      then Inr \<lparr>drink_id = None,
                title = (case map_of kvs ''title'' of None \<Rightarrow> PStr [] | Some v \<Rightarrow> v),
                recipe = JText (case map_of kvs ''recipe'' of None \<Rightarrow> PList [] | Some v \<Rightarrow> v)\<rparr>
      else Inl TypeError)"
  by (simp add: post_drink_try_def json_dumps_def Drink_def)

lemma post_drink_try_not_dict:
  "(\<And>kvs. p \<noteq> Parsed (PDict kvs)) \<Longrightarrow> \<exists>e. post_drink_try p = Inl e"
proof (cases p)
  case Unparseable
  then show ?thesis by (simp add: post_drink_try_def)
next
  case (Parsed j)
  assume "\<And>kvs. p \<noteq> Parsed (PDict kvs)"
  with Parsed show ?thesis
    by (cases j) (simp_all add: post_drink_try_def)
qed

text \<open>
  The bodies the \<^verbatim>\<open>try\<close> block of the create handler accepts are exactly the dictionaries
  whose recipe, the \<^verbatim>\<open>recipe\<close> entry or the empty list, \<^verbatim>\<open>json.dumps\<close> can serialize.
\<close>

lemma post_drink_try_accepts:
  "(\<exists>d0. post_drink_try p = Inr d0) \<longleftrightarrow>
   (\<exists>kvs. p = Parsed (PDict kvs) \<and>
      serializable (case map_of kvs ''recipe'' of None \<Rightarrow> PList [] | Some v \<Rightarrow> v))"
proof (cases "\<exists>kvs. p = Parsed (PDict kvs)")
  case True
  then obtain kvs where p: "p = Parsed (PDict kvs)" ..
  show ?thesis
    unfolding p by (simp add: post_drink_try_dict)
next
  case False
  then have "\<exists>e. post_drink_try p = Inl e"
    by (intro post_drink_try_not_dict) blast
  with False show ?thesis by auto
qed

lemma post_drink_Inr:
  assumes "post_drink_try p = Inr d0"
  shows "post_drink c p db =
     (if c then (Inr (render_drinks (d0\<lparr>drink_id := Some (new_id db)\<rparr>)),
                 db @ [d0\<lparr>drink_id := Some (new_id db)\<rparr>])
      else (Inl (HTTPException 500), db))"
proof -
  from assms have "post_drink_tx p db =
      (Inr (d0\<lparr>drink_id := Some (new_id db)\<rparr>), db @ [d0\<lparr>drink_id := Some (new_id db)\<rparr>])"
    by (simp add: post_drink_tx_def insert_drink_def Let_def)
  then show ?thesis by (simp add: post_drink_def run_transaction_Inr)
qed

text \<open>
  Claim C9, as amended. Take a POST whose body is a dictionary with a recipe (its
  \<^verbatim>\<open>recipe\<close> entry, or the empty list when it has none) that \<^verbatim>\<open>json.dumps\<close> can serialize;
  these are the bodies the handler accepts. The handler takes the title from the \<^verbatim>\<open>title\<close>
  entry, or the empty string when there is none, and the unit of work inserts a new drink
  with this title and the text of the recipe under an identifier no stored drink has. The
  request is never answered with 422. It succeeds (status 200) exactly when the store
  accepts the commit. When it does and the title is text, the body is
  \<^verbatim>\<open>{success: true, drinks: [d]}\<close> with the one new drink in long projection, and a lookup of
  the new identifier returns the drink with those values. When the commit fails, the answer
  is the server error, the store is what it was and the new identifier is not found. For a
  title that is not text, what the store keeps and renders after the commit is decided by the
  column type of the \<^verbatim>\<open>Drink\<close> class, which is not among the sources; nothing is stated
  about it.
\<close>

theorem post_drink_creates:
  assumes "p = Parsed (PDict kvs)"
    and "t = (case map_of kvs ''title'' of None \<Rightarrow> PStr [] | Some v \<Rightarrow> v)"
    and "r = (case map_of kvs ''recipe'' of None \<Rightarrow> PList [] | Some v \<Rightarrow> v)"
    and "serializable r"
    and "d = \<lparr>drink_id = Some (new_id db), title = t, recipe = JText r\<rparr>"
  shows "post_drink_try p = Inr \<lparr>drink_id = None, title = t, recipe = JText r\<rparr> \<and>
     post_drink_tx p db = (Inr d, db @ [d]) \<and>
     query_get db (new_id db) = None \<and>
     status (fst (respond (post_drink commit_ok p db))) \<noteq> 422 \<and>
     ((status (fst (respond (post_drink commit_ok p db))) = 200) = commit_ok) \<and>
     (commit_ok \<and> (\<exists>s. t = PStr s) \<longrightarrow>
        respond (post_drink commit_ok p db) =
          (\<lparr>status = 200,
            body = Json (PDict [(''success'', PBool True),
                                (''drinks'', PList [PDict [(''id'', PInt (new_id db)),
                                                           (''title'', t),
                                                           (''recipe'', r)]])])\<rparr>,
           db @ [d]) \<and>
        query_get (snd (respond (post_drink commit_ok p db))) (new_id db) = Some d) \<and>
     (\<not> commit_ok \<longrightarrow>
        respond (post_drink commit_ok p db) = (\<lparr>status = 500, body = DefaultPage 500\<rparr>, db) \<and>
        query_get (snd (respond (post_drink commit_ok p db))) (new_id db) = None)"
proof -
  let ?d0 = "\<lparr>drink_id = None, title = t, recipe = JText r\<rparr>"
  have acc: "post_drink_try p = Inr ?d0"
    using assms(4) unfolding assms(1) assms(2) assms(3) by (simp add: post_drink_try_dict)
  have d: "?d0\<lparr>drink_id := Some (new_id db)\<rparr> = d"
    by (simp add: assms(5))
  have tx: "post_drink_tx p db = (Inr d, db @ [d])"
    using acc d by (simp add: post_drink_tx_def insert_drink_def Let_def)
  have fresh: "query_get db (new_id db) = None"
    by (rule query_get_new_id)
  have ren: "render_drinks d =
      \<lparr>status = 200,
       body = Json (PDict [(''success'', PBool True),
                           (''drinks'', PList [PDict [(''id'', PInt (new_id db)),
                                                      (''title'', t),
                                                      (''recipe'', r)]])])\<rparr>"
    by (simp add: assms(5) render_drinks_def jsonify_def long_def)
  have got: "query_get (db @ [d]) (new_id db) = Some d"
    by (simp add: query_get_append fresh assms(5))
  have resp: "respond (post_drink commit_ok p db) =
      (if commit_ok then (render_drinks d, db @ [d])
       else (\<lparr>status = 500, body = DefaultPage 500\<rparr>, db))"
  proof -
    have "post_drink commit_ok p db =
        (if commit_ok then (Inr (render_drinks d), db @ [d])
         else (Inl (HTTPException 500), db))"
      using post_drink_Inr [OF acc, of commit_ok db] unfolding d .
    then show ?thesis by simp
  qed
  have s1: "status (fst (respond (post_drink commit_ok p db))) \<noteq> 422"
    by (simp add: resp ren)
  have s2: "(status (fst (respond (post_drink commit_ok p db))) = 200) = commit_ok"
    by (simp add: resp ren)
  have s3: "commit_ok \<and> (\<exists>s. t = PStr s) \<longrightarrow>
        respond (post_drink commit_ok p db) =
          (\<lparr>status = 200,
            body = Json (PDict [(''success'', PBool True),
                                (''drinks'', PList [PDict [(''id'', PInt (new_id db)),
                                                           (''title'', t),
                                                           (''recipe'', r)]])])\<rparr>,
           db @ [d]) \<and>
        query_get (snd (respond (post_drink commit_ok p db))) (new_id db) = Some d"
  proof
    assume "commit_ok \<and> (\<exists>s. t = PStr s)"
    then have c: commit_ok by (rule conjunct1)
    have r: "respond (post_drink commit_ok p db) = (render_drinks d, db @ [d])"
      using c resp by simp
    show "respond (post_drink commit_ok p db) =
          (\<lparr>status = 200,
            body = Json (PDict [(''success'', PBool True),
                                (''drinks'', PList [PDict [(''id'', PInt (new_id db)),
                                                           (''title'', t),
                                                           (''recipe'', r)]])])\<rparr>,
           db @ [d]) \<and>
        query_get (snd (respond (post_drink commit_ok p db))) (new_id db) = Some d"
      unfolding r snd_conv using ren got by simp
  qed
  have s4: "\<not> commit_ok \<longrightarrow>
        respond (post_drink commit_ok p db) = (\<lparr>status = 500, body = DefaultPage 500\<rparr>, db) \<and>
        query_get (snd (respond (post_drink commit_ok p db))) (new_id db) = None"
  proof
    assume c: "\<not> commit_ok"
    have r: "respond (post_drink commit_ok p db) =
        (\<lparr>status = 500, body = DefaultPage 500\<rparr>, db)"
      using c resp by simp
    show "respond (post_drink commit_ok p db) = (\<lparr>status = 500, body = DefaultPage 500\<rparr>, db) \<and>
        query_get (snd (respond (post_drink commit_ok p db))) (new_id db) = None"
      unfolding r snd_conv using fresh by simp
  qed
  from acc tx fresh s1 s2 s3 s4 show ?thesis by (intro conjI)
qed

theorem post_drink_creates_witness:
  "serializable (PList []) \<and>
   post_drink_try (Parsed (PDict [])) =
     Inr \<lparr>drink_id = None, title = PStr [], recipe = JText (PList [])\<rparr> \<and>
   respond (post_drink True (Parsed (PDict [])) menu) =
     (\<lparr>status = 200,
       body = Json (PDict [(''success'', PBool True),
                           (''drinks'', PList [PDict [(''id'', PInt 2),
                                                      (''title'', PStr []),
                                                      (''recipe'', PList [])]])])\<rparr>,
      [water, \<lparr>drink_id = Some 2, title = PStr [], recipe = JText (PList [])\<rparr>]) \<and>
   query_get (snd (respond (post_drink True (Parsed (PDict [])) menu))) 2 =
     Some \<lparr>drink_id = Some 2, title = PStr [], recipe = JText (PList [])\<rparr>"
proof -
  let ?d = "\<lparr>drink_id = Some 2, title = PStr [], recipe = JText (PList [])\<rparr>"
  have n: "new_id menu = 2"
    by (simp add: new_id_def menu_def water_def)
  have h2: "PStr [] = (case map_of [] ''title'' of None \<Rightarrow> PStr [] | Some v \<Rightarrow> v)"
    by simp
  have h3: "PList [] = (case map_of [] ''recipe'' of None \<Rightarrow> PList [] | Some v \<Rightarrow> v)"
    by simp
  have h4: "serializable (PList [])"
    by simp
  have h5: "?d = \<lparr>drink_id = Some (new_id menu), title = PStr [], recipe = JText (PList [])\<rparr>"
    by (simp add: n)
  have m: "menu @ [?d] = [water, ?d]"
    by (simp add: menu_def)
  have istext: "True \<and> (\<exists>s. PStr [] = PStr s)"
    by simp
  note t = post_drink_creates [OF refl h2 h3 h4 h5, of True]
  from t have a: "post_drink_try (Parsed (PDict [])) =
      Inr \<lparr>drink_id = None, title = PStr [], recipe = JText (PList [])\<rparr>"
    by (rule conjunct1)
  from t have "True \<and> (\<exists>s. PStr [] = PStr s) \<longrightarrow>
        respond (post_drink True (Parsed (PDict [])) menu) =
          (\<lparr>status = 200,
            body = Json (PDict [(''success'', PBool True),
                                (''drinks'', PList [PDict [(''id'', PInt (new_id menu)),
                                                           (''title'', PStr []),
                                                           (''recipe'', PList [])]])])\<rparr>,
           menu @ [?d]) \<and>
        query_get (snd (respond (post_drink True (Parsed (PDict [])) menu))) (new_id menu) =
          Some ?d"
    by (elim conjE)
  from this istext have "respond (post_drink True (Parsed (PDict [])) menu) =
          (\<lparr>status = 200,
            body = Json (PDict [(''success'', PBool True),
                                (''drinks'', PList [PDict [(''id'', PInt (new_id menu)),
                                                           (''title'', PStr []),
                                                           (''recipe'', PList [])]])])\<rparr>,
           menu @ [?d]) \<and>
        query_get (snd (respond (post_drink True (Parsed (PDict [])) menu))) (new_id menu) =
          Some ?d"
    by (rule mp)
  then have b: "respond (post_drink True (Parsed (PDict [])) menu) =
     (\<lparr>status = 200,
       body = Json (PDict [(''success'', PBool True),
                           (''drinks'', PList [PDict [(''id'', PInt 2),
                                                      (''title'', PStr []),
                                                      (''recipe'', PList [])]])])\<rparr>,
      [water, ?d]) \<and>
   query_get (snd (respond (post_drink True (Parsed (PDict [])) menu))) 2 = Some ?d"
    unfolding n m .
  from h4 a b show ?thesis by blast
qed

text \<open>
  The claim as it was stated fails where the commit fails: the empty body is accepted by the
  handler, and yet the create is answered with status 500, the store is what it was, and the
  identifier the drink would have had is not found.
\<close>

theorem post_drink_commit_counterexample:
  "post_drink_try (Parsed (PDict [])) =
     Inr \<lparr>drink_id = None, title = PStr [], recipe = JText (PList [])\<rparr> \<and>
   respond (post_drink False (Parsed (PDict [])) menu) =
     (\<lparr>status = 500, body = DefaultPage 500\<rparr>, menu) \<and>
   new_id menu = 2 \<and>
   query_get (snd (respond (post_drink False (Parsed (PDict [])) menu))) 2 = None"
proof -
  have a: "post_drink_try (Parsed (PDict [])) =
     Inr \<lparr>drink_id = None, title = PStr [], recipe = JText (PList [])\<rparr>"
    by (simp add: post_drink_try_dict)
  have b: "respond (post_drink False (Parsed (PDict [])) menu) =
     (\<lparr>status = 500, body = DefaultPage 500\<rparr>, menu)"
    by (simp add: post_drink_Inr [OF a])
  have n: "new_id menu = 2"
    by (simp add: new_id_def menu_def water_def)
  have q: "query_get menu 2 = None"
    by (simp add: query_get_def menu_def water_def)
  from a b n q show ?thesis by simp
qed

section \<open>Update: the lookup comes before the body is read\<close>

text \<open>
  Claim C10. In the update handler the existence check precedes the parsing of the body: when
  no stored drink has the identifier the status is 404 whatever the body is, malformed ones
  included; a 422 is only ever sent for an identifier that is in the store, and an
  unparseable body sent for such an identifier does get it.
\<close>

theorem update_drink_existence_first:
  "(query_get db i = None \<longrightarrow> status (fst (respond (update_drink commit_ok i p db))) = 404) \<and>
   (status (fst (respond (update_drink commit_ok i p db))) = 422 \<longrightarrow> query_get db i \<noteq> None) \<and>
   (query_get db i \<noteq> None \<longrightarrow>
      respond (update_drink commit_ok i Unparseable db) = (unprocessable, db))"
proof -
  have nf: "respond (update_drink commit_ok i p db) = (resource_not_found, db)"
    if "query_get db i = None"
  proof -
    from that have "fst (update_drink_tx i p db) = Inl (HTTPException 404)"
      by (simp add: update_drink_tx_def)
    then show ?thesis by (simp add: update_drink_def run_transaction_Inl)
  qed
  have ex: "respond (update_drink commit_ok i Unparseable db) = (unprocessable, db)"
    if "query_get db i \<noteq> None"
  proof -
    from that obtain d where "query_get db i = Some d" by auto
    then have "fst (update_drink_tx i Unparseable db) = Inl (HTTPException 422)"
      by (simp add: update_drink_tx_def update_drink_try_unparseable)
    then show ?thesis by (simp add: update_drink_def run_transaction_Inl)
  qed
  have "status (fst (respond (update_drink commit_ok i p db))) = 404"
    if "query_get db i = None"
    using nf [OF that] by (simp add: resource_not_found_def)
  then show ?thesis using ex by fastforce
qed

theorem update_drink_existence_first_witness:
  "query_get menu 2 = None \<and>
   status (fst (respond (update_drink True 2 Unparseable menu))) = 404 \<and>
   query_get menu 1 \<noteq> None \<and>
   respond (update_drink True 1 Unparseable menu) = (unprocessable, menu)"
  using update_drink_existence_first [of menu 2 True Unparseable]
    update_drink_existence_first [of menu 1 True Unparseable]
  by (simp add: query_get_def menu_def water_def)

end
